theory Spec2Isabelle
  imports Main
begin

section \<open>Data model\<close>

text \<open>
  The three tables of the schema file, one record per row type. A column declared
  \<^verbatim>\<open>optional: true\<close> holds \<open>None\<close> for SQL NULL. Field names are the column names,
  prefixed by the table (\<open>tpl_\<close>, \<open>con_\<close>, \<open>cl_\<close>) because record fields share one name
  space. A date is the instant a JavaScript \<^verbatim>\<open>Date\<close> holds, in milliseconds.
  The id of a clause is an option as well: the column is a text primary key, which
  admits NULL, and saveClause inserts rows without giving an id.
\<close>

type_synonym date = int

record template =
  tpl_id :: string
  tpl_userId :: "string option"
  tpl_name :: string
  tpl_description :: "string option"
  tpl_category :: "string option"
  tpl_baseLanguage :: "string option"
  tpl_body :: string
  tpl_isSystem :: bool
  tpl_createdAt :: date
  tpl_updatedAt :: date

record contract =
  con_id :: string
  con_userId :: string
  con_templateId :: "string option"
  con_title :: string
  con_partyAName :: "string option"
  con_partyBName :: "string option"
  con_effectiveDate :: "date option"
  con_endDate :: "date option"
  con_governingLaw :: "string option"
  con_status :: "string option"
  con_finalText :: string
  con_notes :: "string option"
  con_createdAt :: date
  con_updatedAt :: date

record clause =
  cl_id :: "string option"
  cl_contractId :: string
  cl_orderIndex :: int
  cl_heading :: "string option"
  cl_body :: string
  cl_clauseKey :: "string option"
  cl_createdAt :: date

text \<open>
  The store \<^verbatim>\<open>db\<close>: each table is the list of its rows, in the order a full
  \<^verbatim>\<open>db.select().from(T)\<close> returns them. The schema makes \<^verbatim>\<open>id\<close> the primary
  key of every table, \<^verbatim>\<open>Contracts.templateId\<close> a reference to a template's id and
  \<^verbatim>\<open>ContractClauses.contractId\<close> a reference to a contract's id.
\<close>

record db =
  ContractTemplates :: "template list"
  Contracts :: "contract list"
  ContractClauses :: "clause list"

text \<open>
  The calling context. \<^verbatim>\<open>context.locals\<close> may be undefined, and so may
  \<^verbatim>\<open>locals.user\<close>; a user object carries its \<^verbatim>\<open>id\<close>.
\<close>

record user =
  user_id :: string

record app_locals =
  locals_user :: "user option"

record action_context =
  ctx_locals :: "app_locals option"

text \<open>
  The codes of the errors an action ends with: the two \<^verbatim>\<open>ActionError\<close>s the
  handlers throw, \<open>BAD_REQUEST\<close> for an input the action's schema refuses, and
  \<open>INTERNAL_SERVER_ERROR\<close> for an exception of the store that no handler catches.
\<close>

datatype error = UNAUTHORIZED | NOT_FOUND | BAD_REQUEST | INTERNAL_SERVER_ERROR

text \<open>
  What one call draws from its surroundings: the string \<^verbatim>\<open>crypto.randomUUID()\<close>
  returns, the instants the first and the second \<^verbatim>\<open>new Date()\<close> of the call
  return, and whether the store enforces the references of the schema. The last is a
  setting of the connection to the store, made outside the sources; it is left open
  here, and a write that breaks an enforced reference is an exception of the store.
\<close>

record effects =
  randomUUID :: string
  newDate1 :: date
  newDate2 :: date
  foreignKeys :: bool

section \<open>JavaScript and store primitives\<close>

text \<open>
  Truthiness of a value of type \<^verbatim>\<open>string | null | undefined\<close>: null, undefined and
  the empty string are falsy.
\<close>

fun truthy :: "string option \<Rightarrow> bool" where
  "truthy None = False"
| "truthy (Some v) = (v \<noteq> [])"

text \<open>\<^verbatim>\<open>a ?? b\<close>: the default is taken only for null and undefined.\<close>

fun nullish :: "'a option \<Rightarrow> 'a \<Rightarrow> 'a" where
  "nullish None d = d"
| "nullish (Some v) d = v"

text \<open>
  A key of the object handed to \<^verbatim>\<open>.set(...)\<close>: a key that is absent, or present
  with the value undefined, leaves the column as it is.
\<close>

fun set_col :: "'a option \<Rightarrow> 'a \<Rightarrow> 'a" where
  "set_col None old = old"
| "set_col (Some v) old = v"

fun set_opt_col :: "'a option \<Rightarrow> 'a option \<Rightarrow> 'a option" where
  "set_opt_col None old = old"
| "set_opt_col (Some v) old = Some v"

text \<open>
  \<^verbatim>\<open>const [row] = await db.select().from(T).where(p).limit(1)\<close>: the first row that
  satisfies the predicate, or undefined.
\<close>

definition select_first :: "('r \<Rightarrow> bool) \<Rightarrow> 'r list \<Rightarrow> 'r option" where
  "select_first p rows = find p rows"

text \<open>
  \<^verbatim>\<open>db.insert(T).values(row)\<close>: \<^verbatim>\<open>id\<close> is the primary key, so the store
  refuses a row whose id is taken (\<open>None\<close>, the exception); otherwise the row is added.
\<close>

definition insert_row :: "('r \<Rightarrow> string) \<Rightarrow> 'r list \<Rightarrow> 'r \<Rightarrow> 'r list option" where
  "insert_row key rows r =
     (if key r \<in> set (map key rows) then None else Some (rows @ [r]))"

text \<open>
  A reference column of a row that is inserted, or that an update sets: where
  references are enforced, a value other than NULL must be the id of a row of the
  table referred to.
\<close>

definition reference_holds :: "bool \<Rightarrow> string option \<Rightarrow> string list \<Rightarrow> bool" where
  "reference_holds enforced key ids =
     (if enforced then (case key of None \<Rightarrow> True | Some k \<Rightarrow> k \<in> set ids) else True)"

text \<open>
  \<^verbatim>\<open>db.update(T).set(v).where(p).returning()\<close>: every row that satisfies the
  predicate is rewritten; the rewritten rows are returned.
\<close>

definition update_rows :: "('r \<Rightarrow> bool) \<Rightarrow> ('r \<Rightarrow> 'r) \<Rightarrow> 'r list \<Rightarrow> 'r list" where
  "update_rows p f rows = map (\<lambda>r. if p r then f r else r) rows"

definition update_returning :: "('r \<Rightarrow> bool) \<Rightarrow> ('r \<Rightarrow> 'r) \<Rightarrow> 'r list \<Rightarrow> 'r list" where
  "update_returning p f rows = map f (filter p rows)"

text \<open>\<^verbatim>\<open>db.delete(T).where(p).returning()\<close>.\<close>

definition delete_rows :: "('r \<Rightarrow> bool) \<Rightarrow> 'r list \<Rightarrow> 'r list" where
  "delete_rows p rows = filter (\<lambda>r. \<not> p r) rows"

definition delete_returning :: "('r \<Rightarrow> bool) \<Rightarrow> 'r list \<Rightarrow> 'r list" where
  "delete_returning p rows = filter p rows"

text \<open>
  The rows of clauses a statement hands back. \<^verbatim>\<open>orderIndex\<close> is an integer column,
  and the client of the store returns an integer as a JavaScript number only when it
  is a safe integer; on any other it throws, after the statement has run. \<open>None\<close> is
  that exception.
\<close>

definition safe_integer :: "int \<Rightarrow> bool" where
  "safe_integer n = (- (2 ^ 53 - 1) \<le> n \<and> n \<le> 2 ^ 53 - 1)"

definition readable :: "clause \<Rightarrow> bool" where
  "readable c = safe_integer (cl_orderIndex c)"

definition returned :: "clause list \<Rightarrow> clause list option" where
  "returned rows = (if filter (\<lambda>c. \<not> readable c) rows = [] then Some rows else None)"

text \<open>\<^verbatim>\<open>const [x] = rows\<close>: the first element, or undefined.\<close>

fun first :: "'a list \<Rightarrow> 'a option" where
  "first [] = None"
| "first (x # xs) = Some x"

section \<open>The actions\<close>

text \<open>
  \<^verbatim>\<open>defineAction({ input, handler })\<close>: the input is parsed by the schema and the
  handler is called with the parsed input; an input the schema refuses ends the action
  with \<open>BAD_REQUEST\<close> and the handler does not run. The input records below are the
  parsed inputs (a required field has its type, an optional one is an option, a date
  is the instant it was coerced to, \<^verbatim>\<open>orderIndex\<close> is an integer as \<^verbatim>\<open>int()\<close>
  demands, of any size); what is left of a schema over them is its refinements,
  \<^verbatim>\<open>min(1)\<close> and \<^verbatim>\<open>positive()\<close>. An action maps the store to its outcome and the
  store it leaves.
\<close>

definition defineAction ::
  "('i \<Rightarrow> bool) \<Rightarrow> ('i \<Rightarrow> action_context \<Rightarrow> db \<Rightarrow> (error + 'o) \<times> db)
     \<Rightarrow> 'i \<Rightarrow> action_context \<Rightarrow> db \<Rightarrow> (error + 'o) \<times> db" where
  "defineAction schema handler input ctx s =
     (if schema input then handler input ctx s else (Inl BAD_REQUEST, s))"

definition requireUser :: "action_context \<Rightarrow> error + user" where
  "requireUser ctx =
     (case ctx_locals ctx of
        None \<Rightarrow> Inl UNAUTHORIZED
      | Some l \<Rightarrow>
          (case locals_user l of
             None \<Rightarrow> Inl UNAUTHORIZED
           | Some u \<Rightarrow> Inr u))"

subsection \<open>createTemplate\<close>

record createTemplate_input =
  ct_id :: "string option"
  ct_name :: string
  ct_description :: "string option"
  ct_category :: "string option"
  ct_baseLanguage :: "string option"
  ct_body :: string
  ct_isSystem :: "bool option"

definition createTemplate_schema :: "createTemplate_input \<Rightarrow> bool" where
  "createTemplate_schema input = (1 \<le> length (ct_name input) \<and> 1 \<le> length (ct_body input))"

definition createTemplate_handler ::
  "effects \<Rightarrow> createTemplate_input \<Rightarrow> action_context \<Rightarrow> db \<Rightarrow> (error + template) \<times> db" where
  "createTemplate_handler fx input ctx s =
     (case requireUser ctx of
        Inl e \<Rightarrow> (Inl e, s)
      | Inr u \<Rightarrow>
          (let row = \<lparr> tpl_id = nullish (ct_id input) (randomUUID fx),
                       tpl_userId = (if ct_isSystem input = Some True then None
                                     else Some (user_id u)),
                       tpl_name = ct_name input,
                       tpl_description = ct_description input,
                       tpl_category = ct_category input,
                       tpl_baseLanguage = ct_baseLanguage input,
                       tpl_body = ct_body input,
                       tpl_isSystem = nullish (ct_isSystem input) False,
                       tpl_createdAt = newDate1 fx,
                       tpl_updatedAt = newDate2 fx \<rparr>
           in case insert_row tpl_id (ContractTemplates s) row of
                None \<Rightarrow> (Inl INTERNAL_SERVER_ERROR, s)
              | Some rows \<Rightarrow> (Inr row, s\<lparr>ContractTemplates := rows\<rparr>)))"

definition createTemplate ::
  "effects \<Rightarrow> createTemplate_input \<Rightarrow> action_context \<Rightarrow> db \<Rightarrow> (error + template) \<times> db" where
  "createTemplate fx = defineAction createTemplate_schema (createTemplate_handler fx)"

subsection \<open>updateTemplate\<close>

record updateTemplate_input =
  ut_id :: string
  ut_name :: "string option"
  ut_description :: "string option"
  ut_category :: "string option"
  ut_baseLanguage :: "string option"
  ut_body :: "string option"
  ut_isSystem :: "bool option"

definition updateTemplate_schema :: "updateTemplate_input \<Rightarrow> bool" where
  "updateTemplate_schema input =
     (case ut_name input of None \<Rightarrow> True | Some n \<Rightarrow> 1 \<le> length n)"

text \<open>
  \<^verbatim>\<open>Object.keys(updateData).length === 0\<close>: no key of \<^verbatim>\<open>rest\<close> has a value other
  than undefined.
\<close>

definition updateTemplate_no_keys :: "updateTemplate_input \<Rightarrow> bool" where
  "updateTemplate_no_keys input =
     (ut_name input = None \<and> ut_description input = None \<and> ut_category input = None \<and>
      ut_baseLanguage input = None \<and> ut_body input = None \<and> ut_isSystem input = None)"

text \<open>\<^verbatim>\<open>.set({ ...updateData, updatedAt: new Date() })\<close> on one row.\<close>

definition updateTemplate_set :: "updateTemplate_input \<Rightarrow> date \<Rightarrow> template \<Rightarrow> template" where
  "updateTemplate_set input now t =
     t\<lparr> tpl_name := set_col (ut_name input) (tpl_name t),
        tpl_description := set_opt_col (ut_description input) (tpl_description t),
        tpl_category := set_opt_col (ut_category input) (tpl_category t),
        tpl_baseLanguage := set_opt_col (ut_baseLanguage input) (tpl_baseLanguage t),
        tpl_body := set_col (ut_body input) (tpl_body t),
        tpl_isSystem := set_col (ut_isSystem input) (tpl_isSystem t),
        tpl_updatedAt := now \<rparr>"

definition updateTemplate_handler ::
  "effects \<Rightarrow> updateTemplate_input \<Rightarrow> action_context \<Rightarrow> db
     \<Rightarrow> (error + template option) \<times> db" where
  "updateTemplate_handler fx input ctx s =
     (case requireUser ctx of
        Inl e \<Rightarrow> (Inl e, s)
      | Inr u \<Rightarrow>
          (case select_first (\<lambda>t. tpl_id t = ut_id input) (ContractTemplates s) of
             None \<Rightarrow> (Inl NOT_FOUND, s)
           | Some existing \<Rightarrow>
               if truthy (tpl_userId existing) \<and> tpl_userId existing \<noteq> Some (user_id u)
               then (Inl NOT_FOUND, s)
               else if updateTemplate_no_keys input then (Inr (Some existing), s)
               else
                 (Inr (first (update_returning (\<lambda>t. tpl_id t = ut_id input)
                                (updateTemplate_set input (newDate1 fx)) (ContractTemplates s))),
                  s\<lparr>ContractTemplates :=
                       update_rows (\<lambda>t. tpl_id t = ut_id input)
                         (updateTemplate_set input (newDate1 fx)) (ContractTemplates s)\<rparr>)))"

definition updateTemplate ::
  "effects \<Rightarrow> updateTemplate_input \<Rightarrow> action_context \<Rightarrow> db
     \<Rightarrow> (error + template option) \<times> db" where
  "updateTemplate fx = defineAction updateTemplate_schema (updateTemplate_handler fx)"

subsection \<open>listTemplates\<close>

definition listTemplates_handler ::
  "unit \<Rightarrow> action_context \<Rightarrow> db \<Rightarrow> (error + template list) \<times> db" where
  "listTemplates_handler input ctx s =
     (case requireUser ctx of
        Inl e \<Rightarrow> (Inl e, s)
      | Inr u \<Rightarrow>
          (Inr (filter (\<lambda>t. tpl_userId t = None \<or> tpl_userId t = Some (user_id u))
                  (ContractTemplates s)), s))"

definition listTemplates ::
  "unit \<Rightarrow> action_context \<Rightarrow> db \<Rightarrow> (error + template list) \<times> db" where
  "listTemplates = defineAction (\<lambda>input. True) listTemplates_handler"

subsection \<open>createContract\<close>

record createContract_input =
  cc_id :: "string option"
  cc_templateId :: "string option"
  cc_title :: string
  cc_partyAName :: "string option"
  cc_partyBName :: "string option"
  cc_effectiveDate :: "date option"
  cc_endDate :: "date option"
  cc_governingLaw :: "string option"
  cc_status :: "string option"
  cc_finalText :: string
  cc_notes :: "string option"

definition createContract_schema :: "createContract_input \<Rightarrow> bool" where
  "createContract_schema input =
     (1 \<le> length (cc_title input) \<and> 1 \<le> length (cc_finalText input))"

text \<open>
  \<^verbatim>\<open>!template || (template.userId && template.userId !== user.id)\<close>, the condition
  under which createContract and updateContract throw for the template they looked up.
\<close>

fun template_refused :: "user \<Rightarrow> template option \<Rightarrow> bool" where
  "template_refused u None = True"
| "template_refused u (Some t) =
     (truthy (tpl_userId t) \<and> tpl_userId t \<noteq> Some (user_id u))"

text \<open>
  The template check of createContract and updateContract: it runs only for a truthy
  \<^verbatim>\<open>templateId\<close>, looks the template up by id, and throws when the condition above
  holds. The value is whether it throws.
\<close>

definition template_check_throws :: "user \<Rightarrow> string option \<Rightarrow> db \<Rightarrow> bool" where
  "template_check_throws u templateId s =
     (case templateId of
        None \<Rightarrow> False
      | Some tid \<Rightarrow>
          truthy (Some tid) \<and>
          template_refused u (select_first (\<lambda>t. tpl_id t = tid) (ContractTemplates s)))"

definition createContract_handler ::
  "effects \<Rightarrow> createContract_input \<Rightarrow> action_context \<Rightarrow> db \<Rightarrow> (error + contract) \<times> db" where
  "createContract_handler fx input ctx s =
     (case requireUser ctx of
        Inl e \<Rightarrow> (Inl e, s)
      | Inr u \<Rightarrow>
          if template_check_throws u (cc_templateId input) s then (Inl NOT_FOUND, s)
          else
            (let row = \<lparr> con_id = nullish (cc_id input) (randomUUID fx),
                         con_userId = user_id u,
                         con_templateId = cc_templateId input,
                         con_title = cc_title input,
                         con_partyAName = cc_partyAName input,
                         con_partyBName = cc_partyBName input,
                         con_effectiveDate = cc_effectiveDate input,
                         con_endDate = cc_endDate input,
                         con_governingLaw = cc_governingLaw input,
                         con_status = cc_status input,
                         con_finalText = cc_finalText input,
                         con_notes = cc_notes input,
                         con_createdAt = newDate1 fx,
                         con_updatedAt = newDate2 fx \<rparr>
             in if reference_holds (foreignKeys fx) (con_templateId row)
                     (map tpl_id (ContractTemplates s))
                then
                  (case insert_row con_id (Contracts s) row of
                     None \<Rightarrow> (Inl INTERNAL_SERVER_ERROR, s)
                   | Some rows \<Rightarrow> (Inr row, s\<lparr>Contracts := rows\<rparr>))
                else (Inl INTERNAL_SERVER_ERROR, s)))"

definition createContract ::
  "effects \<Rightarrow> createContract_input \<Rightarrow> action_context \<Rightarrow> db \<Rightarrow> (error + contract) \<times> db" where
  "createContract fx = defineAction createContract_schema (createContract_handler fx)"

subsection \<open>updateContract\<close>

record updateContract_input =
  uc_id :: string
  uc_templateId :: "string option"
  uc_title :: "string option"
  uc_partyAName :: "string option"
  uc_partyBName :: "string option"
  uc_effectiveDate :: "date option"
  uc_endDate :: "date option"
  uc_governingLaw :: "string option"
  uc_status :: "string option"
  uc_finalText :: "string option"
  uc_notes :: "string option"

text \<open>
  No key is left in \<^verbatim>\<open>updateData\<close>: every field of \<^verbatim>\<open>rest\<close> is undefined and so
  is \<^verbatim>\<open>templateId\<close>.
\<close>

definition updateContract_no_keys :: "updateContract_input \<Rightarrow> bool" where
  "updateContract_no_keys input =
     (uc_title input = None \<and> uc_partyAName input = None \<and> uc_partyBName input = None \<and>
      uc_effectiveDate input = None \<and> uc_endDate input = None \<and>
      uc_governingLaw input = None \<and> uc_status input = None \<and> uc_finalText input = None \<and>
      uc_notes input = None \<and> uc_templateId input = None)"

definition updateContract_set :: "updateContract_input \<Rightarrow> date \<Rightarrow> contract \<Rightarrow> contract" where
  "updateContract_set input now c =
     c\<lparr> con_templateId := set_opt_col (uc_templateId input) (con_templateId c),
        con_title := set_col (uc_title input) (con_title c),
        con_partyAName := set_opt_col (uc_partyAName input) (con_partyAName c),
        con_partyBName := set_opt_col (uc_partyBName input) (con_partyBName c),
        con_effectiveDate := set_opt_col (uc_effectiveDate input) (con_effectiveDate c),
        con_endDate := set_opt_col (uc_endDate input) (con_endDate c),
        con_governingLaw := set_opt_col (uc_governingLaw input) (con_governingLaw c),
        con_status := set_opt_col (uc_status input) (con_status c),
        con_finalText := set_col (uc_finalText input) (con_finalText c),
        con_notes := set_opt_col (uc_notes input) (con_notes c),
        con_updatedAt := now \<rparr>"

text \<open>
  \<^verbatim>\<open>and(eq(Contracts.id, id), eq(Contracts.userId, user.id))\<close>. In the handler
  below the update sets \<^verbatim>\<open>templateId\<close> only when the input carries one, so the
  reference is checked for the input's value.
\<close>

definition own_contract :: "string \<Rightarrow> user \<Rightarrow> contract \<Rightarrow> bool" where
  "own_contract i u c = (con_id c = i \<and> con_userId c = user_id u)"

definition updateContract_handler ::
  "effects \<Rightarrow> updateContract_input \<Rightarrow> action_context \<Rightarrow> db
     \<Rightarrow> (error + contract option) \<times> db" where
  "updateContract_handler fx input ctx s =
     (case requireUser ctx of
        Inl e \<Rightarrow> (Inl e, s)
      | Inr u \<Rightarrow>
          (case select_first (own_contract (uc_id input) u) (Contracts s) of
             None \<Rightarrow> (Inl NOT_FOUND, s)
           | Some existing \<Rightarrow>
               if template_check_throws u (uc_templateId input) s then (Inl NOT_FOUND, s)
               else if updateContract_no_keys input then (Inr (Some existing), s)
               else if reference_holds (foreignKeys fx) (uc_templateId input)
                         (map tpl_id (ContractTemplates s))
               then
                 (Inr (first (update_returning (own_contract (uc_id input) u)
                                (updateContract_set input (newDate1 fx)) (Contracts s))),
                  s\<lparr>Contracts :=
                       update_rows (own_contract (uc_id input) u)
                         (updateContract_set input (newDate1 fx)) (Contracts s)\<rparr>)
               else (Inl INTERNAL_SERVER_ERROR, s)))"

definition updateContract ::
  "effects \<Rightarrow> updateContract_input \<Rightarrow> action_context \<Rightarrow> db
     \<Rightarrow> (error + contract option) \<times> db" where
  "updateContract fx = defineAction (\<lambda>input. True) (updateContract_handler fx)"

subsection \<open>listContracts\<close>

definition listContracts_handler ::
  "unit \<Rightarrow> action_context \<Rightarrow> db \<Rightarrow> (error + contract list) \<times> db" where
  "listContracts_handler input ctx s =
     (case requireUser ctx of
        Inl e \<Rightarrow> (Inl e, s)
      | Inr u \<Rightarrow> (Inr (filter (\<lambda>c. con_userId c = user_id u) (Contracts s)), s))"

definition listContracts ::
  "unit \<Rightarrow> action_context \<Rightarrow> db \<Rightarrow> (error + contract list) \<times> db" where
  "listContracts = defineAction (\<lambda>input. True) listContracts_handler"

subsection \<open>deleteContract\<close>

record deleteContract_input =
  dk_id :: string

text \<open>
  Where references are enforced, the store refuses to delete a contract that a clause
  still refers to: the schema declares no action for that case.
\<close>

definition still_referenced :: "bool \<Rightarrow> contract list \<Rightarrow> clause list \<Rightarrow> bool" where
  "still_referenced enforced deleted clauses =
     (enforced \<and> filter (\<lambda>k. cl_contractId k \<in> set (map con_id deleted)) clauses \<noteq> [])"

definition deleteContract_handler ::
  "effects \<Rightarrow> deleteContract_input \<Rightarrow> action_context \<Rightarrow> db \<Rightarrow> (error + contract) \<times> db" where
  "deleteContract_handler fx input ctx s =
     (case requireUser ctx of
        Inl e \<Rightarrow> (Inl e, s)
      | Inr u \<Rightarrow>
          if still_referenced (foreignKeys fx)
               (delete_returning (own_contract (dk_id input) u) (Contracts s)) (ContractClauses s)
          then (Inl INTERNAL_SERVER_ERROR, s)
          else
            (let s' = s\<lparr>Contracts := delete_rows (own_contract (dk_id input) u) (Contracts s)\<rparr>
             in case first (delete_returning (own_contract (dk_id input) u) (Contracts s)) of
                  None \<Rightarrow> (Inl NOT_FOUND, s')
                | Some deleted \<Rightarrow> (Inr deleted, s')))"

definition deleteContract ::
  "effects \<Rightarrow> deleteContract_input \<Rightarrow> action_context \<Rightarrow> db \<Rightarrow> (error + contract) \<times> db" where
  "deleteContract fx = defineAction (\<lambda>input. True) (deleteContract_handler fx)"

subsection \<open>saveClause\<close>

record saveClause_input =
  sc_id :: "string option"
  sc_contractId :: string
  sc_orderIndex :: int
  sc_heading :: "string option"
  sc_body :: string
  sc_clauseKey :: "string option"

definition saveClause_schema :: "saveClause_input \<Rightarrow> bool" where
  "saveClause_schema input = (0 < sc_orderIndex input \<and> 1 \<le> length (sc_body input))"

text \<open>
  \<^verbatim>\<open>.set(baseValues)\<close> on one row: \<^verbatim>\<open>heading\<close> and \<^verbatim>\<open>clauseKey\<close> are keys of
  \<^verbatim>\<open>baseValues\<close> whose value is undefined when the input omits them.
\<close>

definition saveClause_set :: "saveClause_input \<Rightarrow> date \<Rightarrow> clause \<Rightarrow> clause" where
  "saveClause_set input now c =
     c\<lparr> cl_contractId := sc_contractId input,
        cl_orderIndex := sc_orderIndex input,
        cl_heading := set_opt_col (sc_heading input) (cl_heading c),
        cl_body := sc_body input,
        cl_clauseKey := set_opt_col (sc_clauseKey input) (cl_clauseKey c),
        cl_createdAt := now \<rparr>"

text \<open>
  \<^verbatim>\<open>.values(baseValues)\<close>: the row the insert adds. \<^verbatim>\<open>baseValues\<close> has no
  \<^verbatim>\<open>id\<close> and the column has no default, so the id of the row is NULL; a primary key
  that is NULL clashes with no other row.
\<close>

definition saveClause_values :: "effects \<Rightarrow> saveClause_input \<Rightarrow> clause" where
  "saveClause_values fx input =
     \<lparr> cl_id = None,
       cl_contractId = sc_contractId input,
       cl_orderIndex = sc_orderIndex input,
       cl_heading = sc_heading input,
       cl_body = sc_body input,
       cl_clauseKey = sc_clauseKey input,
       cl_createdAt = newDate1 fx \<rparr>"

text \<open>
  In the branch of a truthy \<^verbatim>\<open>input.id\<close> the condition
  \<^verbatim>\<open>eq(ContractClauses.id, input.id)\<close> compares the column with a string, so it
  holds of no row whose id is NULL. The update and the insert run before their rows
  are handed back: when the client throws on a row, the write has been made.
\<close>

definition saveClause_handler ::
  "effects \<Rightarrow> saveClause_input \<Rightarrow> action_context \<Rightarrow> db \<Rightarrow> (error + clause option) \<times> db" where
  "saveClause_handler fx input ctx s =
     (case requireUser ctx of
        Inl e \<Rightarrow> (Inl e, s)
      | Inr u \<Rightarrow>
          (case select_first (own_contract (sc_contractId input) u) (Contracts s) of
             None \<Rightarrow> (Inl NOT_FOUND, s)
           | Some contract \<Rightarrow>
               if truthy (sc_id input) then
                 (case select_first (\<lambda>c. cl_id c = sc_id input) (ContractClauses s) of
                    None \<Rightarrow> (Inl NOT_FOUND, s)
                  | Some existing \<Rightarrow>
                      if \<not> readable existing then (Inl INTERNAL_SERVER_ERROR, s)
                      else if cl_contractId existing \<noteq> sc_contractId input
                      then (Inl NOT_FOUND, s)
                      else if reference_holds (foreignKeys fx) (Some (sc_contractId input))
                                (map con_id (Contracts s))
                      then
                        (let s' = s\<lparr>ContractClauses :=
                                      update_rows (\<lambda>c. cl_id c = sc_id input)
                                        (saveClause_set input (newDate1 fx))
                                        (ContractClauses s)\<rparr>
                         in case returned (update_returning (\<lambda>c. cl_id c = sc_id input)
                                             (saveClause_set input (newDate1 fx))
                                             (ContractClauses s)) of
                              None \<Rightarrow> (Inl INTERNAL_SERVER_ERROR, s')
                            | Some rows \<Rightarrow> (Inr (first rows), s'))
                      else (Inl INTERNAL_SERVER_ERROR, s))
               else if reference_holds (foreignKeys fx) (Some (sc_contractId input))
                         (map con_id (Contracts s))
               then
                 (let s' = s\<lparr>ContractClauses :=
                               ContractClauses s @ [saveClause_values fx input]\<rparr>
                  in case returned [saveClause_values fx input] of
                       None \<Rightarrow> (Inl INTERNAL_SERVER_ERROR, s')
                     | Some rows \<Rightarrow> (Inr (first rows), s'))
               else (Inl INTERNAL_SERVER_ERROR, s)))"

definition saveClause ::
  "effects \<Rightarrow> saveClause_input \<Rightarrow> action_context \<Rightarrow> db \<Rightarrow> (error + clause option) \<times> db" where
  "saveClause fx = defineAction saveClause_schema (saveClause_handler fx)"

subsection \<open>deleteClause\<close>

record deleteClause_input =
  dc_id :: string
  dc_contractId :: string

definition deleteClause_handler ::
  "deleteClause_input \<Rightarrow> action_context \<Rightarrow> db \<Rightarrow> (error + clause) \<times> db" where
  "deleteClause_handler input ctx s =
     (case requireUser ctx of
        Inl e \<Rightarrow> (Inl e, s)
      | Inr u \<Rightarrow>
          (case select_first (own_contract (dc_contractId input) u) (Contracts s) of
             None \<Rightarrow> (Inl NOT_FOUND, s)
           | Some contract \<Rightarrow>
               (let p = (\<lambda>c. cl_id c = Some (dc_id input)
                              \<and> cl_contractId c = dc_contractId input);
                    s' = s\<lparr>ContractClauses := delete_rows p (ContractClauses s)\<rparr>
                in case returned (delete_returning p (ContractClauses s)) of
                     None \<Rightarrow> (Inl INTERNAL_SERVER_ERROR, s')
                   | Some rows \<Rightarrow>
                       (case first rows of
                          None \<Rightarrow> (Inl NOT_FOUND, s')
                        | Some deleted \<Rightarrow> (Inr deleted, s')))))"

definition deleteClause ::
  "deleteClause_input \<Rightarrow> action_context \<Rightarrow> db \<Rightarrow> (error + clause) \<times> db" where
  "deleteClause = defineAction (\<lambda>input. True) deleteClause_handler"

subsection \<open>getContractWithClauses\<close>

record getContractWithClauses_input =
  gc_id :: string

definition getContractWithClauses_handler ::
  "getContractWithClauses_input \<Rightarrow> action_context \<Rightarrow> db
     \<Rightarrow> (error + contract \<times> clause list) \<times> db" where
  "getContractWithClauses_handler input ctx s =
     (case requireUser ctx of
        Inl e \<Rightarrow> (Inl e, s)
      | Inr u \<Rightarrow>
          (case select_first (own_contract (gc_id input) u) (Contracts s) of
             None \<Rightarrow> (Inl NOT_FOUND, s)
           | Some contract \<Rightarrow>
               (case returned (filter (\<lambda>c. cl_contractId c = gc_id input)
                                 (ContractClauses s)) of
                  None \<Rightarrow> (Inl INTERNAL_SERVER_ERROR, s)
                | Some clauses \<Rightarrow> (Inr (contract, clauses), s))))"

definition getContractWithClauses ::
  "getContractWithClauses_input \<Rightarrow> action_context \<Rightarrow> db
     \<Rightarrow> (error + contract \<times> clause list) \<times> db" where
  "getContractWithClauses = defineAction (\<lambda>input. True) getContractWithClauses_handler"

subsection \<open>The exported object of actions\<close>

text \<open>
  \<^verbatim>\<open>export const server = { ... }\<close>: a request names one of the ten actions and
  carries its input; the response is the object the action returns.
\<close>

datatype request =
    CreateTemplate createTemplate_input
  | UpdateTemplate updateTemplate_input
  | ListTemplates
  | CreateContract createContract_input
  | UpdateContract updateContract_input
  | ListContracts
  | DeleteContract deleteContract_input
  | SaveClause saveClause_input
  | DeleteClause deleteClause_input
  | GetContractWithClauses getContractWithClauses_input

datatype response =
    TemplateCreated template
  | TemplateUpdated "template option"
  | TemplateList "template list"
  | ContractCreated contract
  | ContractUpdated "contract option"
  | ContractList "contract list"
  | ContractDeleted contract
  | ClauseSaved "clause option"
  | ClauseDeleted clause
  | ContractWithClauses "contract \<times> clause list"

fun respond :: "('o \<Rightarrow> response) \<Rightarrow> (error + 'o) \<times> db \<Rightarrow> (error + response) \<times> db" where
  "respond wrap (Inl e, s) = (Inl e, s)"
| "respond wrap (Inr v, s) = (Inr (wrap v), s)"

fun server :: "effects \<Rightarrow> request \<Rightarrow> action_context \<Rightarrow> db \<Rightarrow> (error + response) \<times> db" where
  "server fx (CreateTemplate i) ctx s = respond TemplateCreated (createTemplate fx i ctx s)"
| "server fx (UpdateTemplate i) ctx s = respond TemplateUpdated (updateTemplate fx i ctx s)"
| "server fx ListTemplates ctx s = respond TemplateList (listTemplates () ctx s)"
| "server fx (CreateContract i) ctx s = respond ContractCreated (createContract fx i ctx s)"
| "server fx (UpdateContract i) ctx s = respond ContractUpdated (updateContract fx i ctx s)"
| "server fx ListContracts ctx s = respond ContractList (listContracts () ctx s)"
| "server fx (DeleteContract i) ctx s = respond ContractDeleted (deleteContract fx i ctx s)"
| "server fx (SaveClause i) ctx s = respond ClauseSaved (saveClause fx i ctx s)"
| "server fx (DeleteClause i) ctx s = respond ClauseDeleted (deleteClause i ctx s)"
| "server fx (GetContractWithClauses i) ctx s =
     respond ContractWithClauses (getContractWithClauses i ctx s)"

text \<open>What is left of each action's schema over its parsed input.\<close>

fun schema_accepts :: "request \<Rightarrow> bool" where
  "schema_accepts (CreateTemplate i) = createTemplate_schema i"
| "schema_accepts (UpdateTemplate i) = updateTemplate_schema i"
| "schema_accepts (CreateContract i) = createContract_schema i"
| "schema_accepts (SaveClause i) = saveClause_schema i"
| "schema_accepts r = True"

section \<open>Callers and example data\<close>

text \<open>The context of a signed-in user, and whether a context carries a user at all.\<close>

definition signed_in :: "user \<Rightarrow> action_context" where
  "signed_in u = \<lparr> ctx_locals = Some \<lparr> locals_user = Some u \<rparr> \<rparr>"

definition has_user :: "action_context \<Rightarrow> bool" where
  "has_user ctx =
     (case ctx_locals ctx of None \<Rightarrow> False | Some l \<Rightarrow> locals_user l \<noteq> None)"

text \<open>
  A small store used by the concrete instances below: a system template, a template of
  bob's, a template whose owner column holds the empty string, one contract each for
  alice and bob, and one clause under each contract.
\<close>

definition alice :: user where
  "alice = \<lparr> user_id = ''alice'' \<rparr>"

definition bob :: user where
  "bob = \<lparr> user_id = ''bob'' \<rparr>"

definition anonymous :: action_context where
  "anonymous = \<lparr> ctx_locals = Some \<lparr> locals_user = None \<rparr> \<rparr>"

definition fx0 :: effects where
  "fx0 = \<lparr> randomUUID = ''uuid-1'', newDate1 = 1000, newDate2 = 1001,
           foreignKeys = True \<rparr>"

definition system_template :: template where
  "system_template =
     \<lparr> tpl_id = ''t-sys'', tpl_userId = None, tpl_name = ''NDA'', tpl_description = None,
       tpl_category = Some ''nda'', tpl_baseLanguage = Some ''en'', tpl_body = ''Text'',
       tpl_isSystem = True, tpl_createdAt = 1, tpl_updatedAt = 1 \<rparr>"

definition bob_template :: template where
  "bob_template =
     \<lparr> tpl_id = ''t-bob'', tpl_userId = Some ''bob'', tpl_name = ''Lease'',
       tpl_description = None, tpl_category = None, tpl_baseLanguage = None,
       tpl_body = ''Rent'', tpl_isSystem = False, tpl_createdAt = 2, tpl_updatedAt = 2 \<rparr>"

definition blank_owner_template :: template where
  "blank_owner_template =
     \<lparr> tpl_id = ''t-blank'', tpl_userId = Some [], tpl_name = ''Memo'',
       tpl_description = None, tpl_category = None, tpl_baseLanguage = None,
       tpl_body = ''Note'', tpl_isSystem = False, tpl_createdAt = 3, tpl_updatedAt = 3 \<rparr>"

definition alice_contract :: contract where
  "alice_contract =
     \<lparr> con_id = ''c1'', con_userId = ''alice'', con_templateId = Some ''t-sys'',
       con_title = ''Contract with ACME'', con_partyAName = None, con_partyBName = None,
       con_effectiveDate = None, con_endDate = None, con_governingLaw = None,
       con_status = Some ''draft'', con_finalText = ''Final'', con_notes = None,
       con_createdAt = 4, con_updatedAt = 4 \<rparr>"

definition bob_contract :: contract where
  "bob_contract =
     \<lparr> con_id = ''c2'', con_userId = ''bob'', con_templateId = None,
       con_title = ''Lease of flat'', con_partyAName = None, con_partyBName = None,
       con_effectiveDate = None, con_endDate = None, con_governingLaw = None,
       con_status = None, con_finalText = ''Terms'', con_notes = None,
       con_createdAt = 5, con_updatedAt = 5 \<rparr>"

definition payment_clause :: clause where
  "payment_clause =
     \<lparr> cl_id = Some ''k1'', cl_contractId = ''c1'', cl_orderIndex = 1,
       cl_heading = Some ''Payment'', cl_body = ''Pay within 30 days'',
       cl_clauseKey = Some ''payment'', cl_createdAt = 6 \<rparr>"

definition bob_clause :: clause where
  "bob_clause =
     \<lparr> cl_id = Some ''k2'', cl_contractId = ''c2'', cl_orderIndex = 1, cl_heading = None,
       cl_body = ''Rent is due monthly'', cl_clauseKey = None, cl_createdAt = 7 \<rparr>"

definition demo_store :: db where
  "demo_store =
     \<lparr> ContractTemplates = [system_template, bob_template, blank_owner_template],
       Contracts = [alice_contract, bob_contract],
       ContractClauses = [payment_clause, bob_clause] \<rparr>"

text \<open>The same store without the template whose owner is the empty string.\<close>

definition tidy_store :: db where
  "tidy_store = demo_store\<lparr> ContractTemplates := [system_template, bob_template] \<rparr>"

definition empty_store :: db where
  "empty_store = \<lparr> ContractTemplates = [], Contracts = [], ContractClauses = [] \<rparr>"

text \<open>Inputs of the concrete instances.\<close>

definition rename_template :: "string \<Rightarrow> updateTemplate_input" where
  "rename_template i =
     \<lparr> ut_id = i, ut_name = Some ''Renamed'', ut_description = None, ut_category = None,
       ut_baseLanguage = None, ut_body = None, ut_isSystem = None \<rparr>"

definition new_contract :: "string option \<Rightarrow> string option \<Rightarrow> createContract_input" where
  "new_contract i tid =
     \<lparr> cc_id = i, cc_templateId = tid, cc_title = ''T'', cc_partyAName = None,
       cc_partyBName = None, cc_effectiveDate = None, cc_endDate = None,
       cc_governingLaw = None, cc_status = None, cc_finalText = ''F'', cc_notes = None \<rparr>"

definition nameless_template :: createTemplate_input where
  "nameless_template =
     \<lparr> ct_id = None, ct_name = [], ct_description = None, ct_category = None,
       ct_baseLanguage = None, ct_body = ''Text'', ct_isSystem = None \<rparr>"

definition touch_template :: "string \<Rightarrow> updateTemplate_input" where
  "touch_template i =
     \<lparr> ut_id = i, ut_name = None, ut_description = None, ut_category = None,
       ut_baseLanguage = None, ut_body = None, ut_isSystem = None \<rparr>"

definition link_contract :: "string \<Rightarrow> string option \<Rightarrow> updateContract_input" where
  "link_contract i tid =
     \<lparr> uc_id = i, uc_templateId = tid, uc_title = None, uc_partyAName = None,
       uc_partyBName = None, uc_effectiveDate = None, uc_endDate = None,
       uc_governingLaw = None, uc_status = None, uc_finalText = None, uc_notes = None \<rparr>"

definition resave_clause :: "string option \<Rightarrow> string \<Rightarrow> saveClause_input" where
  "resave_clause i cid =
     \<lparr> sc_id = i, sc_contractId = cid, sc_orderIndex = 2, sc_heading = None,
       sc_body = ''Pay within 15 days'', sc_clauseKey = None \<rparr>"

definition private_template :: createTemplate_input where
  "private_template =
     \<lparr> ct_id = Some ''t1'', ct_name = ''NDA'', ct_description = None, ct_category = None,
       ct_baseLanguage = None, ct_body = ''Text'', ct_isSystem = None \<rparr>"

definition mark_system :: "string \<Rightarrow> updateTemplate_input" where
  "mark_system i = (touch_template i)\<lparr> ut_isSystem := Some True \<rparr>"

definition blank_body :: "string \<Rightarrow> updateTemplate_input" where
  "blank_body i = (touch_template i)\<lparr> ut_body := Some [] \<rparr>"

definition blank_title :: "string \<Rightarrow> updateContract_input" where
  "blank_title i = (link_contract i None)\<lparr> uc_title := Some [] \<rparr>"

definition blank_finalText :: "string \<Rightarrow> updateContract_input" where
  "blank_finalText i = (link_contract i None)\<lparr> uc_finalText := Some [] \<rparr>"

definition bodyless_template :: createTemplate_input where
  "bodyless_template = private_template\<lparr> ct_body := [] \<rparr>"

definition untitled_contract :: createContract_input where
  "untitled_contract = (new_contract None None)\<lparr> cc_title := [] \<rparr>"

section \<open>Auxiliary facts\<close>

lemma requireUser_signed_in: "requireUser (signed_in u) = Inr u"
  by (simp add: requireUser_def signed_in_def)

lemma requireUser_no_user: "\<not> has_user ctx \<Longrightarrow> requireUser ctx = Inl UNAUTHORIZED"
  by (auto simp: has_user_def requireUser_def split: option.splits)

lemma first_update_returning:
  "find p rows = Some t \<Longrightarrow> first (update_returning p f rows) = Some (f t)"
  by (induction rows) (auto simp: update_returning_def)

lemma find_update_rows:
  "find p rows = Some t \<Longrightarrow> p (f t) \<Longrightarrow> find p (update_rows p f rows) = Some (f t)"
  by (induction rows) (auto simp: update_rows_def)

lemma truthy_iff: "truthy x \<longleftrightarrow> (\<exists>v. x = Some v \<and> v \<noteq> [])"
  by (cases x) auto

text \<open>
  Where no template of the table has the empty string as owner, the owner of a template
  found there is truthy exactly when it is not null.
\<close>

lemma truthy_owner:
  assumes "Some [] \<notin> tpl_userId ` set rows" and "select_first p rows = Some t"
  shows "truthy (tpl_userId t) \<longleftrightarrow> tpl_userId t \<noteq> None"
proof -
  from assms(2) have "t \<in> set rows"
    by (auto simp: select_first_def find_Some_iff)
  with assms(1) have "tpl_userId t \<noteq> Some []"
    by (auto simp: image_iff)
  then show ?thesis
    by (cases "tpl_userId t") auto
qed

lemma template_refused_iff:
  "template_refused u x \<longleftrightarrow>
     (case x of None \<Rightarrow> True
      | Some t \<Rightarrow> (\<exists>ow. tpl_userId t = Some ow \<and> ow \<noteq> [] \<and> ow \<noteq> user_id u))"
  by (cases x) (auto simp: truthy_iff)

text \<open>The handlers as a signed-in caller runs them, branch by branch.\<close>

lemma updateTemplate_signed_in:
  "updateTemplate_handler fx input (signed_in u) s =
     (case select_first (\<lambda>t. tpl_id t = ut_id input) (ContractTemplates s) of
        None \<Rightarrow> (Inl NOT_FOUND, s)
      | Some t \<Rightarrow>
          if truthy (tpl_userId t) \<and> tpl_userId t \<noteq> Some (user_id u) then (Inl NOT_FOUND, s)
          else if updateTemplate_no_keys input then (Inr (Some t), s)
          else (Inr (Some (updateTemplate_set input (newDate1 fx) t)),
                s\<lparr>ContractTemplates :=
                     update_rows (\<lambda>t. tpl_id t = ut_id input)
                       (updateTemplate_set input (newDate1 fx)) (ContractTemplates s)\<rparr>))"
  by (auto simp: updateTemplate_handler_def requireUser_signed_in select_first_def
      first_update_returning split: option.splits)

lemma createContract_signed_in:
  "createContract_handler fx input (signed_in u) s =
     (if template_check_throws u (cc_templateId input) s then (Inl NOT_FOUND, s)
      else
        (let row = \<lparr> con_id = nullish (cc_id input) (randomUUID fx),
                     con_userId = user_id u,
                     con_templateId = cc_templateId input,
                     con_title = cc_title input,
                     con_partyAName = cc_partyAName input,
                     con_partyBName = cc_partyBName input,
                     con_effectiveDate = cc_effectiveDate input,
                     con_endDate = cc_endDate input,
                     con_governingLaw = cc_governingLaw input,
                     con_status = cc_status input,
                     con_finalText = cc_finalText input,
                     con_notes = cc_notes input,
                     con_createdAt = newDate1 fx,
                     con_updatedAt = newDate2 fx \<rparr>
         in if \<not> reference_holds (foreignKeys fx) (cc_templateId input)
                   (map tpl_id (ContractTemplates s))
            then (Inl INTERNAL_SERVER_ERROR, s)
            else if con_id row \<in> con_id ` set (Contracts s) then (Inl INTERNAL_SERVER_ERROR, s)
            else (Inr row, s\<lparr>Contracts := Contracts s @ [row]\<rparr>)))"
  by (simp add: createContract_handler_def requireUser_signed_in insert_row_def Let_def)

lemma find_append_new:
  "find p rows = None \<Longrightarrow> p r \<Longrightarrow> find p (rows @ [r]) = Some r"
  by (induction rows) (auto split: if_splits)

text \<open>A lookup comes back empty exactly when no row of the table satisfies the predicate.\<close>

lemma select_first_None_iff:
  "select_first p rows = None \<longleftrightarrow> (\<forall>r \<in> set rows. \<not> p r)"
  by (auto simp: select_first_def find_None_iff)

lemma select_first_holds: "select_first p rows = Some r \<Longrightarrow> p r"
  by (auto simp: select_first_def dest: find_Some_iff [THEN iffD1])

lemma select_first_member: "select_first p rows = Some r \<Longrightarrow> r \<in> set rows"
  by (auto simp: select_first_def find_Some_iff)

text \<open>A reference to a row that a lookup has just found holds.\<close>

lemma template_reference:
  "select_first (\<lambda>t. tpl_id t = tid) rows = Some t
     \<Longrightarrow> reference_holds enforced (Some tid) (map tpl_id rows)"
  using select_first_holds [of "\<lambda>t. tpl_id t = tid" rows t]
    select_first_member [of "\<lambda>t. tpl_id t = tid" rows t]
  by (auto simp: reference_holds_def)

lemma contract_reference:
  "select_first (own_contract i u) rows = Some c
     \<Longrightarrow> reference_holds enforced (Some i) (map con_id rows)"
  using select_first_holds [of "own_contract i u" rows c]
    select_first_member [of "own_contract i u" rows c]
  by (auto simp: reference_holds_def own_contract_def)

lemma select_first_update_rows:
  "select_first p rows = Some r \<Longrightarrow> p (f r)
     \<Longrightarrow> select_first p (update_rows p f rows) = Some (f r)"
  unfolding select_first_def by (rule find_update_rows)

lemma createTemplate_signed_in:
  "createTemplate_handler fx input (signed_in u) s =
     (let row = \<lparr> tpl_id = nullish (ct_id input) (randomUUID fx),
                  tpl_userId = (if ct_isSystem input = Some True then None
                                else Some (user_id u)),
                  tpl_name = ct_name input,
                  tpl_description = ct_description input,
                  tpl_category = ct_category input,
                  tpl_baseLanguage = ct_baseLanguage input,
                  tpl_body = ct_body input,
                  tpl_isSystem = nullish (ct_isSystem input) False,
                  tpl_createdAt = newDate1 fx,
                  tpl_updatedAt = newDate2 fx \<rparr>
      in if tpl_id row \<in> tpl_id ` set (ContractTemplates s) then (Inl INTERNAL_SERVER_ERROR, s)
         else (Inr row, s\<lparr>ContractTemplates := ContractTemplates s @ [row]\<rparr>))"
  by (simp add: createTemplate_handler_def requireUser_signed_in insert_row_def Let_def)

lemma updateContract_signed_in:
  "updateContract_handler fx input (signed_in u) s =
     (case select_first (own_contract (uc_id input) u) (Contracts s) of
        None \<Rightarrow> (Inl NOT_FOUND, s)
      | Some c \<Rightarrow>
          if template_check_throws u (uc_templateId input) s then (Inl NOT_FOUND, s)
          else if updateContract_no_keys input then (Inr (Some c), s)
          else if \<not> reference_holds (foreignKeys fx) (uc_templateId input)
                      (map tpl_id (ContractTemplates s))
          then (Inl INTERNAL_SERVER_ERROR, s)
          else (Inr (Some (updateContract_set input (newDate1 fx) c)),
                s\<lparr>Contracts :=
                     update_rows (own_contract (uc_id input) u)
                       (updateContract_set input (newDate1 fx)) (Contracts s)\<rparr>))"
  by (auto simp: updateContract_handler_def requireUser_signed_in select_first_def
      first_update_returning split: option.splits)

lemma returned_readable:
  "returned rows = (if \<forall>r \<in> set rows. readable r then Some rows else None)"
  by (auto simp: returned_def filter_empty_conv)

lemma saveClause_signed_in:
  "saveClause_handler fx input (signed_in u) s =
     (case select_first (own_contract (sc_contractId input) u) (Contracts s) of
        None \<Rightarrow> (Inl NOT_FOUND, s)
      | Some c \<Rightarrow>
          if truthy (sc_id input) then
            (case select_first (\<lambda>k. cl_id k = sc_id input) (ContractClauses s) of
               None \<Rightarrow> (Inl NOT_FOUND, s)
             | Some k \<Rightarrow>
                 if \<not> readable k then (Inl INTERNAL_SERVER_ERROR, s)
                 else if cl_contractId k \<noteq> sc_contractId input then (Inl NOT_FOUND, s)
                 else
                   (if safe_integer (sc_orderIndex input)
                    then Inr (Some (saveClause_set input (newDate1 fx) k))
                    else Inl INTERNAL_SERVER_ERROR,
                    s\<lparr>ContractClauses :=
                         update_rows (\<lambda>k. cl_id k = sc_id input)
                           (saveClause_set input (newDate1 fx)) (ContractClauses s)\<rparr>))
          else
            (if safe_integer (sc_orderIndex input)
             then Inr (Some (saveClause_values fx input))
             else Inl INTERNAL_SERVER_ERROR,
             s\<lparr>ContractClauses := ContractClauses s @ [saveClause_values fx input]\<rparr>))"
proof (cases "select_first (own_contract (sc_contractId input) u) (Contracts s)")
  case None
  then show ?thesis
    by (simp add: saveClause_handler_def requireUser_signed_in)
next
  case (Some c)
  then have ref: "reference_holds (foreignKeys fx) (Some (sc_contractId input))
                    (map con_id (Contracts s))"
    by (rule contract_reference)
  have new: "readable (saveClause_set input now k) = safe_integer (sc_orderIndex input)"
    "readable (saveClause_values fx input) = safe_integer (sc_orderIndex input)" for now k
    by (simp_all add: readable_def saveClause_set_def saveClause_values_def)
  have handed: "returned (update_returning p (saveClause_set input now) rows) =
      (if safe_integer (sc_orderIndex input)
       then Some (update_returning p (saveClause_set input now) rows) else None)"
    if "find p rows = Some k" for p now rows k
  proof -
    from that have "k \<in> set rows" "p k"
      by (auto simp: find_Some_iff)
    then show ?thesis
      by (auto simp: returned_readable update_returning_def new)
  qed
  note own = Some
  show ?thesis
  proof (cases "truthy (sc_id input)")
    case False
    with own ref show ?thesis
      by (simp add: saveClause_handler_def requireUser_signed_in Let_def returned_def new)
  next
    case True
    show ?thesis
    proof (cases "select_first (\<lambda>k. cl_id k = sc_id input) (ContractClauses s)")
      case None
      with own True show ?thesis
        by (simp add: saveClause_handler_def requireUser_signed_in)
    next
      case (Some k)
      then have found: "find (\<lambda>k. cl_id k = sc_id input) (ContractClauses s) = Some k"
        by (simp add: select_first_def)
      from own ref True Some show ?thesis
        by (simp add: saveClause_handler_def requireUser_signed_in Let_def
            handed [OF found] first_update_returning [OF found])
    qed
  qed
qed

lemma getContractWithClauses_signed_in:
  "getContractWithClauses i (signed_in u) s =
     (case select_first (own_contract (gc_id i) u) (Contracts s) of
        None \<Rightarrow> (Inl NOT_FOUND, s)
      | Some c \<Rightarrow>
          (case returned (filter (\<lambda>k. cl_contractId k = gc_id i) (ContractClauses s)) of
             None \<Rightarrow> (Inl INTERNAL_SERVER_ERROR, s)
           | Some clauses \<Rightarrow> (Inr (c, clauses), s)))"
  by (simp add: getContractWithClauses_def defineAction_def getContractWithClauses_handler_def
      requireUser_signed_in)

text \<open>A templateId that passed the template check, the empty string apart, refers to a template.\<close>

lemma checked_template_reference:
  assumes "\<not> template_check_throws u templateId s" and "templateId \<noteq> Some []"
  shows "reference_holds enforced templateId (map tpl_id (ContractTemplates s))"
proof (cases templateId)
  case None
  then show ?thesis
    by (simp add: reference_holds_def)
next
  case (Some tid)
  with assms obtain t where
    "select_first (\<lambda>t. tpl_id t = tid) (ContractTemplates s) = Some t"
    by (cases "select_first (\<lambda>t. tpl_id t = tid) (ContractTemplates s)")
       (auto simp: template_check_throws_def)
  then show ?thesis
    unfolding Some by (rule template_reference)
qed

text \<open>No write of updateTemplate touches the owner column.\<close>

lemma updateTemplate_owner_column:
  "map tpl_userId (ContractTemplates (snd (updateTemplate fx input ctx s)))
     = map tpl_userId (ContractTemplates s)"
proof -
  have "map tpl_userId (update_rows p (updateTemplate_set input now) rows) = map tpl_userId rows"
    for p now rows
    by (induction rows) (simp_all add: update_rows_def updateTemplate_set_def)
  then show ?thesis
    by (simp add: updateTemplate_def defineAction_def updateTemplate_handler_def
        split: sum.splits option.splits)
qed

text \<open>The row createTemplate returns is a system template exactly when it has no owner.\<close>

lemma createTemplate_correspondence:
  "(case fst (createTemplate fx input ctx s) of
      Inl e \<Rightarrow> True
    | Inr t \<Rightarrow> tpl_isSystem t = (tpl_userId t = None))"
  by (cases "ct_isSystem input")
     (auto simp: createTemplate_def defineAction_def createTemplate_handler_def insert_row_def
        Let_def split: sum.splits)

lemma updateTemplate_empty_body:
  assumes "updateTemplate_schema ti" and "ut_body ti = Some []"
    and "select_first (\<lambda>t. tpl_id t = ut_id ti) (ContractTemplates s) = Some t"
    and "tpl_userId t = None \<or> tpl_userId t = Some (user_id u)"
  shows "\<exists>t'. fst (updateTemplate fx ti (signed_in u) s) = Inr (Some t') \<and> tpl_body t' = []
           \<and> select_first (\<lambda>t. tpl_id t = ut_id ti)
                (ContractTemplates (snd (updateTemplate fx ti (signed_in u) s))) = Some t'"
proof -
  let ?f = "updateTemplate_set ti (newDate1 fx)"
  from assms(3) have "tpl_id t = ut_id ti"
    by (rule select_first_holds)
  then have "tpl_id (?f t) = ut_id ti"
    by (simp add: updateTemplate_set_def)
  with assms(3) have stored: "select_first (\<lambda>t. tpl_id t = ut_id ti)
      (update_rows (\<lambda>t. tpl_id t = ut_id ti) ?f (ContractTemplates s)) = Some (?f t)"
    by (intro select_first_update_rows)
  have body: "tpl_body (?f t) = []"
    using assms(2) by (simp add: updateTemplate_set_def)
  have keys: "\<not> updateTemplate_no_keys ti"
    using assms(2) by (simp add: updateTemplate_no_keys_def)
  show ?thesis
    using assms keys body stored
    by (auto simp: updateTemplate_def defineAction_def updateTemplate_signed_in)
qed

lemma updateContract_empty_text:
  assumes "select_first (own_contract (uc_id ci) u) (Contracts s) = Some c"
    and "\<not> template_check_throws u (uc_templateId ci) s"
    and "uc_title ci = Some [] \<or> uc_finalText ci = Some []"
    and "uc_templateId ci \<noteq> Some []"
  shows "\<exists>c'. fst (updateContract fx ci (signed_in u) s) = Inr (Some c')
           \<and> (uc_title ci = Some [] \<longrightarrow> con_title c' = [])
           \<and> (uc_finalText ci = Some [] \<longrightarrow> con_finalText c' = [])
           \<and> select_first (own_contract (uc_id ci) u)
                (Contracts (snd (updateContract fx ci (signed_in u) s))) = Some c'"
proof -
  let ?f = "updateContract_set ci (newDate1 fx)"
  from assms(1) have "own_contract (uc_id ci) u c"
    by (rule select_first_holds)
  then have "own_contract (uc_id ci) u (?f c)"
    by (simp add: own_contract_def updateContract_set_def)
  with assms(1) have stored: "select_first (own_contract (uc_id ci) u)
      (update_rows (own_contract (uc_id ci) u) ?f (Contracts s)) = Some (?f c)"
    by (intro select_first_update_rows)
  have blank: "uc_title ci = Some [] \<longrightarrow> con_title (?f c) = []"
    "uc_finalText ci = Some [] \<longrightarrow> con_finalText (?f c) = []"
    by (simp_all add: updateContract_set_def)
  have keys: "\<not> updateContract_no_keys ci"
    using assms(3) by (auto simp: updateContract_no_keys_def)
  have ref: "reference_holds (foreignKeys fx) (uc_templateId ci)
               (map tpl_id (ContractTemplates s))"
    using assms(2,4) by (rule checked_template_reference)
  show ?thesis
    using assms(1,2) keys blank stored ref
    by (simp add: updateContract_def defineAction_def updateContract_signed_in)
qed

text \<open>The definitions that evaluate the example data.\<close>

lemmas demo_defs =
  alice_def bob_def anonymous_def fx0_def system_template_def bob_template_def
  blank_owner_template_def alice_contract_def bob_contract_def payment_clause_def
  bob_clause_def demo_store_def tidy_store_def empty_store_def select_first_def

section \<open>Properties\<close>

text \<open>
  C1. For a signed-in caller and any store, listTemplates succeeds, leaves the store as
  it is, and returns exactly the rows of the template table whose owner is null or the
  caller's id, in table order. So a template is listed for the caller if and only if it is
  in the table and is ownerless or owned by the caller: an ownerless template is listed
  for every caller, and no template owned by somebody else is listed.
\<close>

theorem listTemplates_visibility:
  "listTemplates () (signed_in u) s =
     (Inr (filter (\<lambda>t. tpl_userId t = None \<or> tpl_userId t = Some (user_id u))
             (ContractTemplates s)), s)
   \<and> (\<exists>ts. fst (listTemplates () (signed_in u) s) = Inr ts
        \<and> set ts = {t. t \<in> set (ContractTemplates s)
                        \<and> (tpl_userId t = None \<or> tpl_userId t = Some (user_id u))}
        \<and> set ts \<inter> {t. tpl_userId t = None}
            = set (ContractTemplates s) \<inter> {t. tpl_userId t = None}
        \<and> set ts \<inter> {t. \<exists>ow. tpl_userId t = Some ow \<and> ow \<noteq> user_id u} = {})"
  by (auto simp: listTemplates_def defineAction_def listTemplates_handler_def
      requireUser_signed_in)

text \<open>
  C2. The code departs from the claim where the owner column of a template holds the
  empty string. The template \<open>t-blank\<close> is in the table, its owner is the empty string,
  so not null, and is not alice's id; the claim has alice's update end with \<open>NOT_FOUND\<close>.
  The guard of the handler tests the owner for truthiness, not against null as
  listTemplates does, so the update goes through: the row is renamed and returned.
\<close>

theorem updateTemplate_blank_owner:
  "blank_owner_template \<in> set (ContractTemplates demo_store)
   \<and> tpl_id blank_owner_template = ''t-blank''
   \<and> ut_id (rename_template ''t-blank'') = ''t-blank''
   \<and> tpl_userId blank_owner_template = Some []
   \<and> user_id alice = ''alice''
   \<and> updateTemplate fx0 (rename_template ''t-blank'') (signed_in alice) demo_store
       = (Inr (Some (blank_owner_template\<lparr>tpl_name := ''Renamed'', tpl_updatedAt := 1000\<rparr>)),
          demo_store\<lparr>ContractTemplates :=
            [system_template, bob_template,
             blank_owner_template\<lparr>tpl_name := ''Renamed'', tpl_updatedAt := 1000\<rparr>]\<rparr>)
   \<and> fst (listTemplates () (signed_in alice) demo_store) = Inr [system_template]"
  by (simp add: updateTemplate_def defineAction_def updateTemplate_signed_in
      updateTemplate_schema_def rename_template_def demo_defs updateTemplate_no_keys_def
      updateTemplate_set_def update_rows_def listTemplates_def listTemplates_handler_def
      requireUser_signed_in)

text \<open>
  On every store in which no template has the empty string as owner the handler does
  what the claim says: for an input the schema accepts, updateTemplate ends with
  \<open>NOT_FOUND\<close> exactly when the lookup finds no template or finds one whose owner is not
  null and differs from the caller's id; it then leaves the store as it was; and a
  template whose owner is null is updated for every signed-in caller, the row found
  being returned as it is when the input has no field, and rewritten otherwise.
\<close>

lemma updateTemplate_not_found_elsewhere:
  assumes "updateTemplate_schema input"
    and "Some [] \<notin> tpl_userId ` set (ContractTemplates s)"
  shows "(fst (updateTemplate fx input (signed_in u) s) = Inl NOT_FOUND
            \<longleftrightarrow> (case select_first (\<lambda>t. tpl_id t = ut_id input) (ContractTemplates s) of
                   None \<Rightarrow> True
                 | Some t \<Rightarrow> tpl_userId t \<noteq> None \<and> tpl_userId t \<noteq> Some (user_id u)))
       \<and> (fst (updateTemplate fx input (signed_in u) s) = Inl NOT_FOUND
            \<longrightarrow> snd (updateTemplate fx input (signed_in u) s) = s)
       \<and> (\<forall>t. select_first (\<lambda>t. tpl_id t = ut_id input) (ContractTemplates s) = Some t
                \<and> tpl_userId t = None
            \<longrightarrow> updateTemplate fx input (signed_in u) s
                  = (if updateTemplate_no_keys input then (Inr (Some t), s)
                     else (Inr (Some (updateTemplate_set input (newDate1 fx) t)),
                           s\<lparr>ContractTemplates :=
                                update_rows (\<lambda>t. tpl_id t = ut_id input)
                                  (updateTemplate_set input (newDate1 fx))
                                  (ContractTemplates s)\<rparr>)))"
  using assms truthy_owner [OF assms(2)]
  by (auto simp: updateTemplate_def defineAction_def updateTemplate_signed_in
      split: option.splits)

text \<open>
  C3, as amended. For a signed-in caller, an input the schema accepts, a non-empty
  templateId and a store in which no template has the empty string as owner: when the
  lookup finds no template, or finds one whose owner is not null and differs from the
  caller's id, createContract ends with \<open>NOT_FOUND\<close> and the store is as it was. When
  the template found is ownerless or the caller's own, the outcome turns on the id of
  the new row (the input's id, or else the generated UUID): if it is already the id of
  a contract, the insert is refused by the store and the store is as it was; if it is
  free, exactly one row is added to the Contracts table, it is the row returned, its
  owner is the caller and it carries the input's templateId, title and finalText.
\<close>

theorem createContract_template_check:
  assumes "createContract_schema input" and "cc_templateId input = Some tid" and "tid \<noteq> []"
    and "Some [] \<notin> tpl_userId ` set (ContractTemplates s)"
  shows "(case select_first (\<lambda>t. tpl_id t = tid) (ContractTemplates s) of
            None \<Rightarrow> createContract fx input (signed_in u) s = (Inl NOT_FOUND, s)
          | Some t \<Rightarrow>
              if tpl_userId t \<noteq> None \<and> tpl_userId t \<noteq> Some (user_id u)
              then createContract fx input (signed_in u) s = (Inl NOT_FOUND, s)
              else if nullish (cc_id input) (randomUUID fx) \<in> con_id ` set (Contracts s)
              then createContract fx input (signed_in u) s = (Inl INTERNAL_SERVER_ERROR, s)
              else (\<exists>row. createContract fx input (signed_in u) s
                             = (Inr row, s\<lparr>Contracts := Contracts s @ [row]\<rparr>)
                         \<and> con_userId row = user_id u
                         \<and> con_id row = nullish (cc_id input) (randomUUID fx)
                         \<and> con_templateId row = Some tid
                         \<and> con_title row = cc_title input
                         \<and> con_finalText row = cc_finalText input))"
proof (cases "select_first (\<lambda>t. tpl_id t = tid) (ContractTemplates s)")
  case None
  with assms show ?thesis
    by (simp add: createContract_def defineAction_def createContract_signed_in
        template_check_throws_def)
next
  case (Some t)
  then have "reference_holds (foreignKeys fx) (Some tid) (map tpl_id (ContractTemplates s))"
    by (rule template_reference)
  moreover from assms(4) Some have "truthy (tpl_userId t) \<longleftrightarrow> tpl_userId t \<noteq> None"
    by (rule truthy_owner)
  ultimately show ?thesis
    using assms(1-3) Some
    by (auto simp: createContract_def defineAction_def createContract_signed_in
        template_check_throws_def Let_def)
qed

text \<open>
  The instances, on the store without the blank owner: alice naming bob's template
  gets \<open>NOT_FOUND\<close>; alice naming the system template gets a contract of her own.
\<close>

theorem createContract_template_check_witness:
  "createContract_schema (new_contract None (Some ''t-bob''))
   \<and> cc_templateId (new_contract None (Some ''t-bob'')) = Some ''t-bob''
   \<and> ''t-bob'' \<noteq> []
   \<and> Some [] \<notin> tpl_userId ` set (ContractTemplates tidy_store)
   \<and> createContract fx0 (new_contract None (Some ''t-bob'')) (signed_in alice) tidy_store
       = (Inl NOT_FOUND, tidy_store)
   \<and> createContract_schema (new_contract None (Some ''t-sys''))
   \<and> cc_templateId (new_contract None (Some ''t-sys'')) = Some ''t-sys''
   \<and> (\<exists>row. createContract fx0 (new_contract None (Some ''t-sys'')) (signed_in alice) tidy_store
               = (Inr row, tidy_store\<lparr>Contracts := Contracts tidy_store @ [row]\<rparr>)
           \<and> con_userId row = ''alice'')"
proof -
  have ok: "createContract_schema (new_contract i t)" for i t
    by (simp add: createContract_schema_def new_contract_def)
  have tid: "cc_templateId (new_contract i t) = t" "cc_id (new_contract i t) = i" for i t
    by (simp_all add: new_contract_def)
  have owners: "Some [] \<notin> tpl_userId ` set (ContractTemplates tidy_store)"
    by (simp add: demo_defs)
  have bob's: "select_first (\<lambda>t. tpl_id t = ''t-bob'') (ContractTemplates tidy_store)
                 = Some bob_template"
    and sys: "select_first (\<lambda>t. tpl_id t = ''t-sys'') (ContractTemplates tidy_store)
                = Some system_template"
    by (simp_all add: demo_defs)
  have facts: "tpl_userId bob_template = Some ''bob''" "user_id alice = ''alice''"
    "tpl_userId system_template = None" "randomUUID fx0 = ''uuid-1''"
    "con_id ` set (Contracts tidy_store) = {''c1'', ''c2''}"
    by (auto simp: demo_defs)
  from createContract_template_check [where input = "new_contract None (Some ''t-bob'')"
      and tid = "''t-bob''" and s = tidy_store and fx = fx0 and u = alice]
  have "createContract fx0 (new_contract None (Some ''t-bob'')) (signed_in alice) tidy_store
          = (Inl NOT_FOUND, tidy_store)"
    by (simp add: ok tid owners bob's facts)
  moreover
  from createContract_template_check [where input = "new_contract None (Some ''t-sys'')"
      and tid = "''t-sys''" and s = tidy_store and fx = fx0 and u = alice]
  have "\<exists>row. createContract fx0 (new_contract None (Some ''t-sys'')) (signed_in alice) tidy_store
               = (Inr row, tidy_store\<lparr>Contracts := Contracts tidy_store @ [row]\<rparr>)
           \<and> con_userId row = ''alice''"
    by (auto simp: ok owners sys facts tid)
  ultimately show ?thesis
    using ok tid owners by simp
qed

text \<open>
  The claim as written fails where the id is taken: the system template is ownerless,
  no template of the store has the empty string as owner, yet alice's createContract
  naming it with the id \<open>c1\<close>, which is the id of a contract, creates nothing.
\<close>

theorem createContract_counterexample:
  "system_template \<in> set (ContractTemplates tidy_store)
   \<and> tpl_id system_template = ''t-sys''
   \<and> tpl_userId system_template = None
   \<and> cc_id (new_contract (Some ''c1'') (Some ''t-sys'')) = Some ''c1''
   \<and> alice_contract \<in> set (Contracts tidy_store)
   \<and> con_id alice_contract = ''c1''
   \<and> createContract fx0 (new_contract (Some ''c1'') (Some ''t-sys'')) (signed_in alice) tidy_store
       = (Inl INTERNAL_SERVER_ERROR, tidy_store)"
  by (simp add: createContract_def defineAction_def createContract_signed_in
      createContract_schema_def new_contract_def template_check_throws_def
      reference_holds_def demo_defs Let_def)

text \<open>
  C4, as amended. Every action checks its schema first: on an input its schema refuses
  it ends with \<open>BAD_REQUEST\<close>, whether the context carries a user or not. On an input its
  schema accepts, when the context carries no user, it ends with \<open>UNAUTHORIZED\<close>. In
  both cases the outcome is the same for every store and the store is left as it was.
\<close>

theorem server_without_user:
  "(\<not> schema_accepts req \<longrightarrow> server fx req ctx s = (Inl BAD_REQUEST, s))
   \<and> (schema_accepts req \<and> \<not> has_user ctx \<longrightarrow> server fx req ctx s = (Inl UNAUTHORIZED, s))"
proof (intro conjI impI)
  assume "\<not> schema_accepts req"
  then show "server fx req ctx s = (Inl BAD_REQUEST, s)"
    by (cases req)
       (simp_all add: defineAction_def createTemplate_def updateTemplate_def
          createContract_def saveClause_def)
next
  assume "schema_accepts req \<and> \<not> has_user ctx"
  then show "server fx req ctx s = (Inl UNAUTHORIZED, s)"
    by (cases req)
       (simp_all add: requireUser_no_user defineAction_def
          createTemplate_def createTemplate_handler_def
          updateTemplate_def updateTemplate_handler_def
          listTemplates_def listTemplates_handler_def
          createContract_def createContract_handler_def
          updateContract_def updateContract_handler_def
          listContracts_def listContracts_handler_def
          deleteContract_def deleteContract_handler_def
          saveClause_def saveClause_handler_def
          deleteClause_def deleteClause_handler_def
          getContractWithClauses_def getContractWithClauses_handler_def)
qed

text \<open>
  The instances: without a user, createContract and deleteContract on accepted inputs
  end with \<open>UNAUTHORIZED\<close>; createTemplate with an empty name ends with \<open>BAD_REQUEST\<close>
  for alice as it does without a user.
\<close>

theorem server_without_user_witness:
  "\<not> has_user anonymous
   \<and> schema_accepts (CreateContract (new_contract None (Some ''t-bob'')))
   \<and> server fx0 (CreateContract (new_contract None (Some ''t-bob''))) anonymous demo_store
       = (Inl UNAUTHORIZED, demo_store)
   \<and> server fx0 (DeleteContract \<lparr> dk_id = ''c1'' \<rparr>) anonymous demo_store
       = (Inl UNAUTHORIZED, demo_store)
   \<and> has_user (signed_in alice)
   \<and> \<not> schema_accepts (CreateTemplate nameless_template)
   \<and> server fx0 (CreateTemplate nameless_template) (signed_in alice) demo_store
       = (Inl BAD_REQUEST, demo_store)
   \<and> server fx0 (CreateTemplate nameless_template) anonymous demo_store
       = (Inl BAD_REQUEST, demo_store)"
proof -
  have anon: "\<not> has_user anonymous" and user: "has_user (signed_in alice)"
    by (simp_all add: has_user_def anonymous_def signed_in_def)
  have ok: "schema_accepts (CreateContract (new_contract None (Some ''t-bob'')))"
    "schema_accepts (DeleteContract \<lparr> dk_id = ''c1'' \<rparr>)"
    and bad: "\<not> schema_accepts (CreateTemplate nameless_template)"
    by (simp_all add: createContract_schema_def new_contract_def createTemplate_schema_def
        nameless_template_def)
  show ?thesis
    using anon user ok bad
      server_without_user [where fx = fx0 and s = demo_store and ctx = anonymous
        and req = "CreateContract (new_contract None (Some ''t-bob''))"]
      server_without_user [where fx = fx0 and s = demo_store and ctx = anonymous
        and req = "DeleteContract \<lparr> dk_id = ''c1'' \<rparr>"]
      server_without_user [where fx = fx0 and s = demo_store and ctx = "signed_in alice"
        and req = "CreateTemplate nameless_template"]
      server_without_user [where fx = fx0 and s = demo_store and ctx = anonymous
        and req = "CreateTemplate nameless_template"]
    by simp
qed

text \<open>
  The claim as written fails on an input the schema refuses: createTemplate with an
  empty name and no signed-in user ends with \<open>BAD_REQUEST\<close>, not with \<open>UNAUTHORIZED\<close>.
\<close>

theorem validation_before_auth_counterexample:
  "\<not> has_user anonymous
   \<and> fst (server fx0 (CreateTemplate nameless_template) anonymous empty_store)
       = Inl BAD_REQUEST
   \<and> fst (server fx0 (CreateTemplate nameless_template) anonymous empty_store)
       \<noteq> Inl UNAUTHORIZED"
  by (simp add: has_user_def anonymous_def createTemplate_def defineAction_def
      createTemplate_schema_def nameless_template_def)

text \<open>
  C5. For a signed-in caller, updateTemplate on a template that is ownerless or the
  caller's own, and updateContract on a contract of the caller's, called with no field
  besides the id, return the row the lookup found, as it was stored (so with its
  original updatedAt), and leave the whole store as it was.
\<close>

theorem update_without_fields:
  "(updateTemplate_no_keys ti
      \<and> select_first (\<lambda>t. tpl_id t = ut_id ti) (ContractTemplates s) = Some t
      \<and> (tpl_userId t = None \<or> tpl_userId t = Some (user_id u))
    \<longrightarrow> updateTemplate fx ti (signed_in u) s = (Inr (Some t), s))
   \<and> (updateContract_no_keys ci
        \<and> select_first (own_contract (uc_id ci) u) (Contracts s) = Some c
      \<longrightarrow> updateContract fx ci (signed_in u) s = (Inr (Some c), s))"
  by (auto simp: updateTemplate_def updateContract_def defineAction_def
      updateTemplate_signed_in updateContract_signed_in updateTemplate_schema_def
      updateTemplate_no_keys_def updateContract_no_keys_def template_check_throws_def)

theorem update_without_fields_witness:
  "updateTemplate_no_keys (touch_template ''t-sys'')
   \<and> select_first (\<lambda>t. tpl_id t = ut_id (touch_template ''t-sys''))
        (ContractTemplates demo_store) = Some system_template
   \<and> tpl_userId system_template = None
   \<and> updateTemplate fx0 (touch_template ''t-sys'') (signed_in alice) demo_store
       = (Inr (Some system_template), demo_store)
   \<and> tpl_updatedAt system_template = 1
   \<and> updateContract_no_keys (link_contract ''c1'' None)
   \<and> select_first (own_contract (uc_id (link_contract ''c1'' None)) alice)
        (Contracts demo_store) = Some alice_contract
   \<and> updateContract fx0 (link_contract ''c1'' None) (signed_in alice) demo_store
       = (Inr (Some alice_contract), demo_store)"
proof -
  have t: "updateTemplate_no_keys (touch_template ''t-sys'')"
    "select_first (\<lambda>t. tpl_id t = ut_id (touch_template ''t-sys''))
       (ContractTemplates demo_store) = Some system_template"
    "tpl_userId system_template = None" "tpl_updatedAt system_template = 1"
    by (simp_all add: updateTemplate_no_keys_def touch_template_def demo_defs)
  have c: "updateContract_no_keys (link_contract ''c1'' None)"
    "select_first (own_contract (uc_id (link_contract ''c1'' None)) alice)
       (Contracts demo_store) = Some alice_contract"
    by (simp_all add: updateContract_no_keys_def link_contract_def own_contract_def demo_defs)
  show ?thesis
    using t c
      update_without_fields [where ti = "touch_template ''t-sys''" and s = demo_store
        and t = system_template and u = alice and fx = fx0
        and ci = "link_contract ''c1'' None" and c = alice_contract]
    by simp
qed




text \<open>
  The two cases left out, as the handler runs them. An input without heading and
  clauseKey leaves those two columns of the row as they were. An orderIndex of \<open>2 ^ 53\<close>
  passes the schema and the row is rewritten, but the call ends with the exception the
  client throws when the row is handed back.
\<close>

lemma saveClause_left_out:
  "fst (saveClause fx0 (resave_clause (Some ''k1'') ''c1'') (signed_in alice) demo_store)
     = Inr (Some \<lparr> cl_id = Some ''k1'', cl_contractId = ''c1'', cl_orderIndex = 2,
                   cl_heading = Some ''Payment'', cl_body = ''Pay within 15 days'',
                   cl_clauseKey = Some ''payment'', cl_createdAt = 1000 \<rparr>)
   \<and> saveClause_schema ((resave_clause (Some ''k1'') ''c1'')\<lparr>sc_orderIndex := 2 ^ 53\<rparr>)
   \<and> saveClause fx0 ((resave_clause (Some ''k1'') ''c1'')\<lparr>sc_orderIndex := 2 ^ 53\<rparr>)
         (signed_in alice) demo_store
       = (Inl INTERNAL_SERVER_ERROR,
          demo_store\<lparr>ContractClauses :=
            [\<lparr> cl_id = Some ''k1'', cl_contractId = ''c1'', cl_orderIndex = 2 ^ 53,
               cl_heading = Some ''Payment'', cl_body = ''Pay within 15 days'',
               cl_clauseKey = Some ''payment'', cl_createdAt = 1000 \<rparr>,
             bob_clause]\<rparr>)"
  by (simp add: saveClause_def defineAction_def saveClause_schema_def saveClause_signed_in
      resave_clause_def own_contract_def demo_defs saveClause_set_def update_rows_def
      readable_def safe_integer_def)

text \<open>
  C7. The code departs from the claim in two places. Where the owner column of a
  template holds the empty string: the template \<open>t-blank\<close> is in the table, its owner is
  not null and is not alice's id, so the claim has alice's updateContract naming it end
  with \<open>NOT_FOUND\<close>; the guard tests the owner for truthiness and the contract is linked
  to the template. And where the templateId is the empty string: the handler skips the
  template check as the claim says, but then writes the empty string as templateId;
  with references enforced and no template of that id the store refuses the write, so
  the call ends with the exception of the store and the contract keeps its template.
\<close>

theorem updateContract_defects:
  "blank_owner_template \<in> set (ContractTemplates demo_store)
   \<and> tpl_id blank_owner_template = ''t-blank''
   \<and> tpl_userId blank_owner_template = Some []
   \<and> user_id alice = ''alice''
   \<and> select_first (own_contract ''c1'' alice) (Contracts demo_store) = Some alice_contract
   \<and> fst (updateContract fx0 (link_contract ''c1'' (Some ''t-blank'')) (signed_in alice)
            demo_store)
       = Inr (Some (alice_contract\<lparr>con_templateId := Some ''t-blank'', con_updatedAt := 1000\<rparr>))
   \<and> foreignKeys fx0
   \<and> [] \<notin> tpl_id ` set (ContractTemplates demo_store)
   \<and> con_templateId alice_contract = Some ''t-sys''
   \<and> updateContract fx0 (link_contract ''c1'' (Some [])) (signed_in alice) demo_store
       = (Inl INTERNAL_SERVER_ERROR, demo_store)"
  by (simp add: updateContract_def defineAction_def updateContract_signed_in
      link_contract_def own_contract_def template_check_throws_def reference_holds_def
      demo_defs updateContract_no_keys_def updateContract_set_def)

text \<open>
  For a templateId that is not empty, on every store in which no template has the
  empty string as owner, the handler does what the claim says: for a signed-in caller
  who owns the contract, updateContract ends with \<open>NOT_FOUND\<close> exactly when the lookup
  finds no template or finds one whose owner is not null and differs from the caller's
  id; otherwise it succeeds, and the row returned and then stored carries the
  templateId.
\<close>

lemma updateContract_templateId_elsewhere:
  assumes "select_first (own_contract (uc_id input) u) (Contracts s) = Some c"
    and "uc_templateId input = Some tid" and "tid \<noteq> []"
    and "Some [] \<notin> tpl_userId ` set (ContractTemplates s)"
  shows "updateContract fx input (signed_in u) s
           = (if (case select_first (\<lambda>t. tpl_id t = tid) (ContractTemplates s) of
                    None \<Rightarrow> True
                  | Some t \<Rightarrow> tpl_userId t \<noteq> None \<and> tpl_userId t \<noteq> Some (user_id u))
              then (Inl NOT_FOUND, s)
              else (Inr (Some (updateContract_set input (newDate1 fx) c)),
                    s\<lparr>Contracts := update_rows (own_contract (uc_id input) u)
                                      (updateContract_set input (newDate1 fx)) (Contracts s)\<rparr>))
         \<and> con_templateId (updateContract_set input (newDate1 fx) c) = Some tid
         \<and> select_first (own_contract (uc_id input) u)
              (update_rows (own_contract (uc_id input) u)
                 (updateContract_set input (newDate1 fx)) (Contracts s))
             = Some (updateContract_set input (newDate1 fx) c)"
proof -
  let ?new = "updateContract_set input (newDate1 fx) c"
  from assms(1) have "own_contract (uc_id input) u c"
    by (rule select_first_holds)
  then have "own_contract (uc_id input) u ?new"
    by (simp add: own_contract_def updateContract_set_def)
  with assms(1) have stored: "select_first (own_contract (uc_id input) u)
      (update_rows (own_contract (uc_id input) u) (updateContract_set input (newDate1 fx))
         (Contracts s)) = Some ?new"
    by (intro select_first_update_rows)
  have keys: "\<not> updateContract_no_keys input"
    using assms(2) by (simp add: updateContract_no_keys_def)
  have tid: "con_templateId ?new = Some tid"
    using assms(2) by (simp add: updateContract_set_def)
  have run: "updateContract fx input (signed_in u) s =
      (if (case select_first (\<lambda>t. tpl_id t = tid) (ContractTemplates s) of
             None \<Rightarrow> True
           | Some t \<Rightarrow> tpl_userId t \<noteq> None \<and> tpl_userId t \<noteq> Some (user_id u))
       then (Inl NOT_FOUND, s)
       else (Inr (Some ?new),
             s\<lparr>Contracts := update_rows (own_contract (uc_id input) u)
                               (updateContract_set input (newDate1 fx)) (Contracts s)\<rparr>))"
  proof (cases "select_first (\<lambda>t. tpl_id t = tid) (ContractTemplates s)")
    case None
    with assms keys show ?thesis
      by (simp add: updateContract_def defineAction_def updateContract_signed_in
          template_check_throws_def)
  next
    case (Some t)
    then have "reference_holds (foreignKeys fx) (Some tid) (map tpl_id (ContractTemplates s))"
      by (rule template_reference)
    moreover from assms(4) Some have "truthy (tpl_userId t) \<longleftrightarrow> tpl_userId t \<noteq> None"
      by (rule truthy_owner)
    ultimately show ?thesis
      using assms(1-3) keys Some
      by (auto simp: updateContract_def defineAction_def updateContract_signed_in
          template_check_throws_def)
  qed
  from run tid stored show ?thesis
    by simp
qed

text \<open>
  C8. When createContract succeeds for a signed-in caller and no clause of the store
  refers to the id of the new contract, getContractWithClauses for that id, by the same
  caller on the store createContract left, succeeds, leaves the store as it is, and
  returns the created row, whose title and finalText are the input's, with the empty
  list of clauses.
\<close>

theorem createContract_roundtrip:
  assumes "createContract fx input (signed_in u) s = (Inr c, s')"
    and "con_id c \<notin> cl_contractId ` set (ContractClauses s)"
  shows "getContractWithClauses \<lparr> gc_id = con_id c \<rparr> (signed_in u) s' = (Inr (c, []), s')
         \<and> con_title c = cc_title input \<and> con_finalText c = cc_finalText input"
proof -
  from assms(1) have fresh: "con_id c \<notin> con_id ` set (Contracts s)"
    and s': "s' = s\<lparr>Contracts := Contracts s @ [c]\<rparr>"
    and c: "con_userId c = user_id u" "con_title c = cc_title input"
      "con_finalText c = cc_finalText input"
    by (auto simp: createContract_def defineAction_def createContract_signed_in Let_def
        split: if_splits)
  from fresh have "find (own_contract (con_id c) u) (Contracts s) = None"
    by (auto simp: find_None_iff own_contract_def image_iff)
  then have "select_first (own_contract (con_id c) u) (Contracts s') = Some c"
    by (simp add: s' select_first_def find_append_new own_contract_def c)
  moreover from assms(2)
  have "filter (\<lambda>k. cl_contractId k = con_id c) (ContractClauses s') = []"
    by (auto simp: s' filter_empty_conv image_iff)
  ultimately show ?thesis
    by (simp add: getContractWithClauses_signed_in returned_def c)
qed

theorem createContract_roundtrip_witness:
  "\<exists>c s'. createContract fx0 (new_contract None None) (signed_in alice) demo_store = (Inr c, s')
     \<and> con_id c = ''uuid-1''
     \<and> con_id c \<notin> cl_contractId ` set (ContractClauses demo_store)
     \<and> getContractWithClauses \<lparr> gc_id = con_id c \<rparr> (signed_in alice) s' = (Inr (c, []), s')
     \<and> con_title c = ''T'' \<and> con_finalText c = ''F''"
proof -
  obtain c s' where
    run: "createContract fx0 (new_contract None None) (signed_in alice) demo_store = (Inr c, s')"
    and id: "con_id c = ''uuid-1''"
    by (simp add: createContract_def defineAction_def createContract_signed_in
        createContract_schema_def new_contract_def template_check_throws_def
        reference_holds_def demo_defs Let_def)
  have free: "con_id c \<notin> cl_contractId ` set (ContractClauses demo_store)"
    by (simp add: id demo_defs)
  have inp: "cc_title (new_contract None None) = ''T''"
    "cc_finalText (new_contract None None) = ''F''"
    by (simp_all add: new_contract_def)
  from createContract_roundtrip [OF run free] run id free inp show ?thesis
    by auto
qed

text \<open>
  C9. No call of updateTemplate, whatever its input, caller and outcome, changes the
  owner column of any template row. The row createTemplate returns is a system template
  exactly when its owner is null; updateTemplate does not keep that: alice creating a
  template without isSystem and then updating it with isSystem true leaves one row in
  the table, with isSystem true and owner alice.
\<close>

theorem updateTemplate_keeps_owner:
  "map tpl_userId (ContractTemplates (snd (updateTemplate fx input ctx s)))
     = map tpl_userId (ContractTemplates s)
   \<and> (case fst (createTemplate fx ci ctx s) of
         Inl e \<Rightarrow> True
       | Inr t \<Rightarrow> tpl_isSystem t = (tpl_userId t = None))
   \<and> ct_isSystem private_template = None
   \<and> ut_isSystem (mark_system ''t1'') = Some True
   \<and> ContractTemplates
        (snd (updateTemplate fx0 (mark_system ''t1'') (signed_in alice)
           (snd (createTemplate fx0 private_template (signed_in alice) empty_store))))
       = [\<lparr> tpl_id = ''t1'', tpl_userId = Some ''alice'', tpl_name = ''NDA'',
            tpl_description = None, tpl_category = None, tpl_baseLanguage = None,
            tpl_body = ''Text'', tpl_isSystem = True, tpl_createdAt = 1000,
            tpl_updatedAt = 1000 \<rparr>]"
proof -
  have "ContractTemplates
          (snd (updateTemplate fx0 (mark_system ''t1'') (signed_in alice)
             (snd (createTemplate fx0 private_template (signed_in alice) empty_store))))
        = [\<lparr> tpl_id = ''t1'', tpl_userId = Some ''alice'', tpl_name = ''NDA'',
             tpl_description = None, tpl_category = None, tpl_baseLanguage = None,
             tpl_body = ''Text'', tpl_isSystem = True, tpl_createdAt = 1000,
             tpl_updatedAt = 1000 \<rparr>]"
    by (simp add: createTemplate_def updateTemplate_def defineAction_def
        createTemplate_signed_in updateTemplate_signed_in createTemplate_schema_def
        updateTemplate_schema_def private_template_def mark_system_def touch_template_def
        demo_defs Let_def updateTemplate_no_keys_def updateTemplate_set_def update_rows_def)
  moreover have "ct_isSystem private_template = None" "ut_isSystem (mark_system ''t1'') = Some True"
    by (simp_all add: private_template_def mark_system_def touch_template_def)
  ultimately show ?thesis
    using updateTemplate_owner_column [of fx input ctx s]
      createTemplate_correspondence [of fx ci ctx s]
    by simp
qed

text \<open>
  C10. For a signed-in caller: updateTemplate on a template that is ownerless or the
  caller's own, with an input the schema accepts whose body is the empty string,
  succeeds, and the row returned and then stored under that id has the empty body.
  updateContract on a contract of the caller's, with a title or a finalText that is the
  empty string (and a templateId, if any, that is not empty and passes the template
  check), succeeds, and
  the row returned and then stored has the empty title, respectively finalText. The
  creating actions refuse the same values: createTemplate with an empty body and
  createContract with an empty title or finalText end with \<open>BAD_REQUEST\<close>.
\<close>

theorem updates_accept_empty_text:
  "(updateTemplate_schema ti \<and> ut_body ti = Some []
      \<and> select_first (\<lambda>t. tpl_id t = ut_id ti) (ContractTemplates s) = Some t
      \<and> (tpl_userId t = None \<or> tpl_userId t = Some (user_id u))
    \<longrightarrow> (\<exists>t'. fst (updateTemplate fx ti (signed_in u) s) = Inr (Some t') \<and> tpl_body t' = []
            \<and> select_first (\<lambda>t. tpl_id t = ut_id ti)
                 (ContractTemplates (snd (updateTemplate fx ti (signed_in u) s))) = Some t'))
   \<and> (select_first (own_contract (uc_id ci) u) (Contracts s) = Some c
        \<and> (uc_title ci = Some [] \<or> uc_finalText ci = Some [])
        \<and> \<not> template_check_throws u (uc_templateId ci) s
        \<and> uc_templateId ci \<noteq> Some []
      \<longrightarrow> (\<exists>c'. fst (updateContract fx ci (signed_in u) s) = Inr (Some c')
              \<and> (uc_title ci = Some [] \<longrightarrow> con_title c' = [])
              \<and> (uc_finalText ci = Some [] \<longrightarrow> con_finalText c' = [])
              \<and> select_first (own_contract (uc_id ci) u)
                   (Contracts (snd (updateContract fx ci (signed_in u) s))) = Some c'))
   \<and> (ct_body cti = [] \<longrightarrow> createTemplate fx cti ctx s = (Inl BAD_REQUEST, s))
   \<and> (cc_title cci = [] \<or> cc_finalText cci = []
        \<longrightarrow> createContract fx cci ctx s = (Inl BAD_REQUEST, s))"
proof (intro conjI impI)
  assume "updateTemplate_schema ti \<and> ut_body ti = Some []
      \<and> select_first (\<lambda>t. tpl_id t = ut_id ti) (ContractTemplates s) = Some t
      \<and> (tpl_userId t = None \<or> tpl_userId t = Some (user_id u))"
  then show "\<exists>t'. fst (updateTemplate fx ti (signed_in u) s) = Inr (Some t') \<and> tpl_body t' = []
            \<and> select_first (\<lambda>t. tpl_id t = ut_id ti)
                 (ContractTemplates (snd (updateTemplate fx ti (signed_in u) s))) = Some t'"
    by (intro updateTemplate_empty_body) blast+
next
  assume "select_first (own_contract (uc_id ci) u) (Contracts s) = Some c
        \<and> (uc_title ci = Some [] \<or> uc_finalText ci = Some [])
        \<and> \<not> template_check_throws u (uc_templateId ci) s
        \<and> uc_templateId ci \<noteq> Some []"
  then show "\<exists>c'. fst (updateContract fx ci (signed_in u) s) = Inr (Some c')
              \<and> (uc_title ci = Some [] \<longrightarrow> con_title c' = [])
              \<and> (uc_finalText ci = Some [] \<longrightarrow> con_finalText c' = [])
              \<and> select_first (own_contract (uc_id ci) u)
                   (Contracts (snd (updateContract fx ci (signed_in u) s))) = Some c'"
    by (intro updateContract_empty_text) blast+
next
  assume "ct_body cti = []"
  then show "createTemplate fx cti ctx s = (Inl BAD_REQUEST, s)"
    by (simp add: createTemplate_def defineAction_def createTemplate_schema_def)
next
  assume "cc_title cci = [] \<or> cc_finalText cci = []"
  then show "createContract fx cci ctx s = (Inl BAD_REQUEST, s)"
    by (auto simp: createContract_def defineAction_def createContract_schema_def)
qed

text \<open>
  The instances: bob blanks the body of his template, alice blanks the title and the
  finalText of her contract; a template without body and a contract without title are
  refused at creation.
\<close>

theorem updates_accept_empty_text_witness:
  "updateTemplate_schema (blank_body ''t-bob'')
   \<and> ut_body (blank_body ''t-bob'') = Some []
   \<and> select_first (\<lambda>t. tpl_id t = ut_id (blank_body ''t-bob'')) (ContractTemplates demo_store)
       = Some bob_template
   \<and> tpl_userId bob_template = Some (user_id bob)
   \<and> (\<exists>t'. fst (updateTemplate fx0 (blank_body ''t-bob'') (signed_in bob) demo_store)
             = Inr (Some t')
          \<and> tpl_body t' = []
          \<and> select_first (\<lambda>t. tpl_id t = ''t-bob'')
               (ContractTemplates
                  (snd (updateTemplate fx0 (blank_body ''t-bob'') (signed_in bob) demo_store)))
              = Some t')
   \<and> select_first (own_contract ''c1'' alice) (Contracts demo_store) = Some alice_contract
   \<and> uc_title (blank_title ''c1'') = Some []
   \<and> (\<exists>c'. fst (updateContract fx0 (blank_title ''c1'') (signed_in alice) demo_store)
             = Inr (Some c')
          \<and> con_title c' = []
          \<and> select_first (own_contract ''c1'' alice)
               (Contracts (snd (updateContract fx0 (blank_title ''c1'') (signed_in alice)
                                  demo_store)))
              = Some c')
   \<and> uc_finalText (blank_finalText ''c1'') = Some []
   \<and> (\<exists>c'. fst (updateContract fx0 (blank_finalText ''c1'') (signed_in alice) demo_store)
             = Inr (Some c')
          \<and> con_finalText c' = [])
   \<and> ct_body bodyless_template = []
   \<and> createTemplate fx0 bodyless_template (signed_in alice) demo_store
       = (Inl BAD_REQUEST, demo_store)
   \<and> cc_title untitled_contract = []
   \<and> createContract fx0 untitled_contract (signed_in alice) demo_store
       = (Inl BAD_REQUEST, demo_store)"
proof -
  have ti: "updateTemplate_schema (blank_body ''t-bob'')"
    "ut_body (blank_body ''t-bob'') = Some []" "ut_id (blank_body ''t-bob'') = ''t-bob''"
    by (simp_all add: updateTemplate_schema_def blank_body_def touch_template_def)
  have t: "select_first (\<lambda>t. tpl_id t = ''t-bob'') (ContractTemplates demo_store)
             = Some bob_template"
    "tpl_userId bob_template = Some (user_id bob)"
    by (simp_all add: demo_defs)
  have ci: "uc_id (blank_title ''c1'') = ''c1''" "uc_title (blank_title ''c1'') = Some []"
    "uc_templateId (blank_title ''c1'') = None" "uc_finalText (blank_title ''c1'') = None"
    "uc_id (blank_finalText ''c1'') = ''c1''" "uc_finalText (blank_finalText ''c1'') = Some []"
    "uc_templateId (blank_finalText ''c1'') = None" "uc_title (blank_finalText ''c1'') = None"
    by (simp_all add: blank_title_def blank_finalText_def link_contract_def)
  have c: "select_first (own_contract ''c1'' alice) (Contracts demo_store) = Some alice_contract"
    by (simp add: own_contract_def demo_defs)
  have pass: "\<not> template_check_throws alice None demo_store"
    by (simp add: template_check_throws_def)
  have new: "ct_body bodyless_template = []" "cc_title untitled_contract = []"
    by (simp_all add: bodyless_template_def untitled_contract_def)
  note inst = updates_accept_empty_text [where fx = fx0 and s = demo_store
      and cti = bodyless_template and cci = untitled_contract and ctx = "signed_in alice"]
  from inst [where ti = "blank_body ''t-bob''" and t = bob_template and u = bob]
  have one: "\<exists>t'. fst (updateTemplate fx0 (blank_body ''t-bob'') (signed_in bob) demo_store)
               = Inr (Some t')
            \<and> tpl_body t' = []
            \<and> select_first (\<lambda>t. tpl_id t = ''t-bob'')
                 (ContractTemplates
                    (snd (updateTemplate fx0 (blank_body ''t-bob'') (signed_in bob) demo_store)))
                = Some t'"
    by (simp add: ti t)
  from inst [where ci = "blank_title ''c1''" and c = alice_contract and u = alice]
  have two: "\<exists>c'. fst (updateContract fx0 (blank_title ''c1'') (signed_in alice) demo_store)
               = Inr (Some c')
            \<and> con_title c' = []
            \<and> select_first (own_contract ''c1'' alice)
                 (Contracts (snd (updateContract fx0 (blank_title ''c1'') (signed_in alice)
                                    demo_store)))
                = Some c'"
    and rejected: "createTemplate fx0 bodyless_template (signed_in alice) demo_store
                     = (Inl BAD_REQUEST, demo_store)"
      "createContract fx0 untitled_contract (signed_in alice) demo_store
         = (Inl BAD_REQUEST, demo_store)"
    by (simp_all add: ci c pass new)
  from inst [where ci = "blank_finalText ''c1''" and c = alice_contract and u = alice]
  have three: "\<exists>c'. fst (updateContract fx0 (blank_finalText ''c1'') (signed_in alice) demo_store)
                 = Inr (Some c')
              \<and> con_finalText c' = []"
    by (auto simp: ci c pass)
  show ?thesis
    using ti t c ci new one two three rejected by simp
qed


end
